theory Spec2Isabelle
  imports Complex_Main "HOL-Library.Sublist"
begin

section \<open>Python values shared by \<open>chatbot.py\<close> and \<open>app.py\<close>\<close>

subsection \<open>Strings\<close>

text \<open>
  A Python \<open>str\<close> is a sequence of Unicode code points, so it is modelled as a list of
  natural numbers. \<open>py\<close> embeds an ASCII literal; code points outside the printable ASCII
  range (the line feed 10, the apostrophe 39, the bullet 8226, the rupee sign 8377) are
  written as numbers.
\<close>

type_synonym pystr = "nat list"

definition py :: "string \<Rightarrow> pystr" where
  "py s = map of_char s"

text \<open>
  \<open>str.isspace\<close> of one code point: the complete list of the code points Python treats as
  white space (U+0009 to U+000D, U+001C to U+0020, U+0085, U+00A0, U+1680, U+2000 to
  U+200A, U+2028, U+2029, U+202F, U+205F, U+3000).
\<close>

definition isspace :: "nat \<Rightarrow> bool" where
  "isspace c =
     (9 \<le> c \<and> c \<le> 13 \<or> 28 \<le> c \<and> c \<le> 32 \<or> c = 133 \<or> c = 160 \<or> c = 5760 \<or>
      8192 \<le> c \<and> c \<le> 8202 \<or> c = 8232 \<or> c = 8233 \<or> c = 8239 \<or> c = 8287 \<or> c = 12288)"

text \<open>\<open>s.strip()\<close>: white space removed at both ends.\<close>

definition strip :: "pystr \<Rightarrow> pystr" where
  "strip s = rev (dropWhile isspace (rev (dropWhile isspace s)))"

text \<open>\<open>s.strip(chars)\<close>: the code points of \<open>chars\<close> removed at both ends.\<close>

definition strip_chars :: "pystr \<Rightarrow> pystr \<Rightarrow> pystr" where
  "strip_chars chars s =
     rev (dropWhile (\<lambda>c. c \<in> set chars) (rev (dropWhile (\<lambda>c. c \<in> set chars) s)))"

text \<open>
  \<open>str.lower\<close> of one code point. The upper-case letters of Basic Latin and Latin-1 move
  up by 32. Five code points above U+00FF have a lower-case form that contains a code
  point below U+0100 (U+0130, U+0178, U+1E9E, U+212A, U+212B); they are mapped as Python
  maps them. Every other code point above U+00FF is lowered by Python to code points
  above U+00FF again; the model leaves it as it is, which makes no difference to the
  occurrence of an ASCII keyword in the lowered text.
\<close>

definition lower_cp :: "nat \<Rightarrow> pystr" where
  "lower_cp c =
     (if 65 \<le> c \<and> c \<le> 90 then [c + 32]
      else if 192 \<le> c \<and> c \<le> 222 \<and> c \<noteq> 215 then [c + 32]
      else if c = 304 then [105, 775]
      else if c = 376 then [255]
      else if c = 7838 then [223]
      else if c = 8490 then [107]
      else if c = 8491 then [229]
      else [c])"

definition lower :: "pystr \<Rightarrow> pystr" where
  "lower s = concat (map lower_cp s)"

text \<open>\<open>kw in s\<close> on strings: \<open>kw\<close> occurs in \<open>s\<close> as a contiguous substring.\<close>

fun str_in :: "pystr \<Rightarrow> pystr \<Rightarrow> bool" where
  "str_in kw [] = (kw = [])"
| "str_in kw (c # cs) = (prefix kw (c # cs) \<or> str_in kw cs)"

text \<open>The truth value of an optional string: \<open>None\<close> and \<open>""\<close> are false.\<close>

definition truthy :: "pystr option \<Rightarrow> bool" where
  "truthy x = (case x of None \<Rightarrow> False | Some s \<Rightarrow> s \<noteq> [])"

subsection \<open>Exceptions and the generative backend\<close>

text \<open>
  The exceptions the two modules can meet. \<open>KeyError\<close> carries the missing key;
  \<open>BackendError\<close> stands for whatever the OpenAI client raises from a call (time-out,
  network error, error response).
\<close>

datatype exn = KeyError pystr | IndexError | AttributeError | BackendError

text \<open>
  One call \<open>openai_client.chat.completions.create(model=..., messages=..., max_tokens=...,
  temperature=...)\<close>. A message is a role and a content. The call either raises or returns
  a response; of the response the code reads \<open>response.choices[0].message.content\<close> only,
  so a response is the list of the contents of its choices, each a string or \<open>None\<close>.
  The client is the external service: a function from the request to the outcome.
  \<open>openai_client\<close> is \<open>None\<close> when no backend is configured.
\<close>

record request =
  model :: pystr
  messages :: "(pystr \<times> pystr) list"
  max_tokens :: int
  temperature :: real

type_synonym response = "pystr option list"

type_synonym client = "request \<Rightarrow> exn + response"

text \<open>\<open>response.choices[0].message.content.strip()\<close>, with the exceptions it can raise.\<close>

definition first_content_stripped :: "response \<Rightarrow> exn + pystr" where
  "first_content_stripped response =
     (case response of
        [] \<Rightarrow> Inl IndexError
      | content # _ \<Rightarrow>
          (case content of None \<Rightarrow> Inl AttributeError | Some text \<Rightarrow> Inr (strip text)))"

section \<open>\<open>chatbot.py\<close>: class \<open>IronLadyChatbot\<close>\<close>

subsection \<open>The FAQ table and the keyword table\<close>

definition programs_question :: pystr where
  "programs_question =
     py ''What programs does Iron Lady offer?''"

definition programs_answer :: pystr where
  "programs_answer =
     py ''Iron Lady offers comprehensive leadership programs including:'' @ [10] @
     py ''                '' @ [10, 8226] @
     py '' Executive Leadership Development Program (6 months)'' @ [10, 8226] @
     py '' Women in Leadership Bootcamp (3 months)'' @ [10, 8226] @
     py '' Corporate Mentorship Program (4 months)'' @ [10, 8226] @
     py '' Leadership Skills Workshop Series (2 months)'' @ [10, 8226] @
     py '' Personal Branding & Communication Program (3 months)'' @ [10, 8226] @
     py '' Strategic Thinking & Decision Making Course (2 months)'' @ [10, 10] @
     py ''All programs are designed to empower women leaders across various industries.''"

definition duration_question :: pystr where
  "duration_question =
     py ''What is the program duration?''"

definition duration_answer :: pystr where
  "duration_answer =
     py ''Program durations vary based on the course:'' @ [10, 10, 8226] @
     py '' Executive Leadership Development: 6 months'' @ [10, 8226] @
     py '' Women in Leadership Bootcamp: 3 months'' @ [10, 8226] @
     py '' Corporate Mentorship Program: 4 months'' @ [10, 8226] @
     py '' Leadership Skills Workshop: 2 months'' @ [10, 8226] @
     py '' Personal Branding Program: 3 months'' @ [10, 8226] @
     py '' Strategic Thinking Course: 2 months'' @ [10, 10] @
     py ''Each program includes weekly sessions, practical assignments, and one-on-one men'' @
     py ''toring.''"

definition format_question :: pystr where
  "format_question =
     py ''Is the program online or offline?''"

definition format_answer :: pystr where
  "format_answer =
     py ''Iron Lady offers flexible learning formats:'' @ [10, 10, 8226] @
     py '' Hybrid Model: Combination of online and offline sessions'' @ [10, 8226] @
     py '' Online Sessions: Live interactive webinars, recorded lectures, virtual group di'' @
     py ''scussions'' @ [10, 8226] @
     py '' Offline Sessions: In-person workshops, networking events, practical exercises'' @
     [10, 8226] @ py '' Location: Physical sessions conducted at ITPL, Bengaluru'' @ [10, 8226] @
     py '' Flexibility: 70% online, 30% offline for maximum convenience'' @ [10, 10] @
     py ''All sessions are recorded for later review.''"

definition certificates_question :: pystr where
  "certificates_question =
     py ''Are certificates provided?''"

definition certificates_answer :: pystr where
  "certificates_answer =
     py ''Yes! Iron Lady provides comprehensive certification:'' @ [10, 10, 8226] @
     py '' Official Certificate of Completion for all programs'' @ [10, 8226] @
     py '' Digital badges for LinkedIn profiles'' @ [10, 8226] @
     py '' Industry-recognized credentials'' @ [10, 8226] @
     py '' Continuing Education Units (CEUs) where applicable'' @ [10, 8226] @
     py '' Portfolio of completed projects and case studies'' @ [10, 8226] @
     py '' Letter of recommendation from mentors (upon request)'' @ [10, 10] @
     py ''Certificates are issued upon successful completion of all program requirements.''"

definition mentors_question :: pystr where
  "mentors_question =
     py ''Who are the mentors/coaches?''"

definition mentors_answer :: pystr where
  "mentors_answer =
     py ''Our expert mentor team includes:'' @ [10, 10, 8226] @
     py '' Senior executives from Fortune 500 companies'' @ [10, 8226] @
     py '' Successful women entrepreneurs and founders'' @ [10, 8226] @
     py '' Industry leaders with 15+ years of experience'' @ [10, 8226] @
     py '' Certified leadership coaches and consultants'' @ [10, 8226] @
     py '' Former C-suite executives from various sectors'' @ [10, 8226] @
     py '' International speakers and thought leaders'' @ [10, 10] @
     py ''Mentor-to-participant ratio is maintained at 1:8 for personalized attention.'' @ [10] @
     py ''Each participant is assigned a dedicated mentor based on their career goals.''"

definition base_system_prompt :: pystr where
  "base_system_prompt =
     py ''You are a helpful assistant for Iron Lady Leadership Programs. '' @ [10] @
     py ''            You should provide accurate, encouraging, and professional responses'' @
     py '' about leadership development.'' @ [10] @
     py ''            Keep responses concise but informative. Always maintain a supportive'' @
     py '' and empowering tone.'' @ [10] @ py ''            '' @ [10] @
     py ''            Available Programs Context:'' @ [10] @
     py ''            - Executive Leadership Development (6 months)'' @ [10] @
     py ''            - Women in Leadership Bootcamp (3 months) '' @ [10] @
     py ''            - Corporate Mentorship Program (4 months)'' @ [10] @
     py ''            - Leadership Skills Workshop (2 months)'' @ [10] @
     py ''            - Personal Branding Program (3 months)'' @ [10] @
     py ''            - Strategic Thinking Course (2 months)'' @ [10] @ py ''            '' @ [10] @
     py ''            All programs are hybrid (70% online, 30% offline) with expert mentor'' @
     py ''s and certificates provided.''"

definition faq_context_prefix :: pystr where
  "faq_context_prefix =
     [10, 10] @ py ''Relevant FAQ Context: ''"

definition prompt_for_input_message :: pystr where
  "prompt_for_input_message =
     py ''Please ask me something about Iron Lady'' @ [39] @ py ''s leadership programs!''"

definition menu_message :: pystr where
  "menu_message =
     py ''I'' @ [39] @ py ''d be happy to help you learn about Iron Lady'' @ [39] @
     py ''s leadership programs! '' @ [10, 10] @ py ''You can ask me about:'' @ [10, 8226] @
     py '' What programs are offered'' @ [10, 8226] @ py '' Program duration and format'' @
     [10, 8226] @ py '' Online/offline availability  '' @ [10, 8226] @
     py '' Certification details'' @ [10, 8226] @ py '' Our mentors and coaches'' @ [10, 10] @
     py ''What would you like to know?''"
text \<open>
  \<open>self.faq_data\<close> and \<open>self.keywords\<close> are dict literals; a dict iterates in insertion
  order, so both are association lists in the order of the source (\<open>keywords\<close> is a reserved
  word of the theory language, hence \<open>keywords_table\<close>).
\<close>

record faq_entry =
  question :: pystr
  answer :: pystr

definition faq_data :: "(pystr \<times> faq_entry) list" where
  "faq_data =
     [(py ''programs'', \<lparr>question = programs_question, answer = programs_answer\<rparr>),
      (py ''duration'', \<lparr>question = duration_question, answer = duration_answer\<rparr>),
      (py ''format'', \<lparr>question = format_question, answer = format_answer\<rparr>),
      (py ''certificates'', \<lparr>question = certificates_question, answer = certificates_answer\<rparr>),
      (py ''mentors'', \<lparr>question = mentors_question, answer = mentors_answer\<rparr>)]"

definition keywords_table :: "(pystr \<times> pystr list) list" where
  "keywords_table =
     [(py ''programs'',
         [py ''program'', py ''course'', py ''offer'', py ''available'', py ''what'', py ''services'']),
      (py ''duration'',
         [py ''duration'', py ''time'', py ''long'', py ''period'', py ''months'', py ''weeks'']),
      (py ''format'',
         [py ''online'', py ''offline'', py ''mode'', py ''format'', py ''where'', py ''location'']),
      (py ''certificates'',
         [py ''certificate'', py ''certification'', py ''credential'', py ''badge'']),
      (py ''mentors'',
         [py ''mentor'', py ''coach'', py ''teacher'', py ''instructor'', py ''guide'', py ''expert''])]"

subsection \<open>\<open>find_intent\<close> and \<open>get_faq_response\<close>\<close>

text \<open>
  The loop \<open>for intent, keywords in self.keywords.items()\<close> over the lowered input: the
  first entry one of whose keywords occurs in it is returned, \<open>None\<close> when the loop ends.
\<close>

fun find_intent_loop :: "(pystr \<times> pystr list) list \<Rightarrow> pystr \<Rightarrow> pystr option" where
  "find_intent_loop [] user_input_lower = None"
| "find_intent_loop ((intent, kws) # rest) user_input_lower =
     (if list_ex (\<lambda>keyword. str_in keyword user_input_lower) kws then Some intent
      else find_intent_loop rest user_input_lower)"

definition find_intent :: "pystr \<Rightarrow> pystr option" where
  "find_intent user_input = find_intent_loop keywords_table (lower user_input)"

definition get_faq_response :: "pystr \<Rightarrow> pystr option" where
  "get_faq_response intent =
     (case map_of faq_data intent of None \<Rightarrow> None | Some entry \<Rightarrow> Some (answer entry))"

subsection \<open>\<open>get_ai_response\<close>\<close>

text \<open>The request built in the \<open>try\<close> block from the user input and the FAQ context.\<close>

definition ai_request :: "pystr \<Rightarrow> pystr \<Rightarrow> request" where
  "ai_request user_input context =
     (let system_prompt =
            (if context \<noteq> [] then base_system_prompt @ faq_context_prefix @ context
             else base_system_prompt)
      in \<lparr>model = py ''gpt-3.5-turbo'',
          messages = [(py ''system'', system_prompt), (py ''user'', user_input)],
          max_tokens = 300,
          temperature = 0.7\<rparr>)"

text \<open>The body of the \<open>try\<close> block: the call, then the stripped content of the first choice.\<close>

definition get_ai_response_try :: "client \<Rightarrow> pystr \<Rightarrow> pystr \<Rightarrow> exn + pystr" where
  "get_ai_response_try cl user_input context =
     (case cl (ai_request user_input context) of
        Inl e \<Rightarrow> Inl e
      | Inr response \<Rightarrow> first_content_stripped response)"

text \<open>
  \<open>get_ai_response\<close> returns \<open>None\<close> without a call when no client is configured, and
  \<open>None\<close> when the \<open>try\<close> block raises (\<open>except Exception\<close>). Next to its result it
  returns the list of the requests it sent to the backend.
\<close>

definition get_ai_response :: "client option \<Rightarrow> pystr \<Rightarrow> pystr \<Rightarrow> pystr option \<times> request list" where
  "get_ai_response openai_client user_input context =
     (case openai_client of
        None \<Rightarrow> (None, [])
      | Some cl \<Rightarrow>
          (case get_ai_response_try cl user_input context of
             Inl e \<Rightarrow> (None, [ai_request user_input context])
           | Inr text \<Rightarrow> (Some text, [ai_request user_input context])))"

subsection \<open>\<open>get_response\<close>\<close>

text \<open>
  Lines 175 to 180: the intent, and the FAQ answer when the intent is a non-empty string.
\<close>

definition faq_response_for :: "pystr \<Rightarrow> pystr option" where
  "faq_response_for user_input =
     (case find_intent user_input of
        None \<Rightarrow> None
      | Some intent \<Rightarrow> (if intent \<noteq> [] then get_faq_response intent else None))"

text \<open>The argument \<open>faq_response or ""\<close> of the call of \<open>get_ai_response\<close>.\<close>

definition or_empty :: "pystr option \<Rightarrow> pystr" where
  "or_empty x = (case x of None \<Rightarrow> [] | Some s \<Rightarrow> s)"

text \<open>
  The reply, and the requests sent to the backend while it was computed. An input that
  is empty after \<open>strip\<close> returns at once.
\<close>

definition get_response :: "client option \<Rightarrow> pystr \<Rightarrow> pystr \<times> request list" where
  "get_response openai_client user_input =
     (if strip user_input = [] then (prompt_for_input_message, [])
      else
        let faq_response = faq_response_for user_input;
            (ai_response, sent) = get_ai_response openai_client user_input (or_empty faq_response)
        in if truthy ai_response then (the ai_response, sent)
           else if truthy faq_response then (the faq_response, sent)
           else (menu_message, sent))"

section \<open>\<open>app.py\<close>: class \<open>CourseManager\<close>\<close>

subsection \<open>The state\<close>

text \<open>
  A stored course is the dict built by \<open>add_course\<close>, with its nine keys; the key
  \<open>"id"\<close> is the field \<open>course_id\<close>. A feedback entry is the dict built by
  \<open>add_feedback\<close>, its keys prefixed with \<open>fb_\<close>.
\<close>

record course =
  course_id :: int
  title :: pystr
  description :: pystr
  duration :: pystr
  format :: pystr
  price :: pystr
  category :: pystr
  created_at :: pystr
  updated_at :: pystr

record feedback_entry =
  fb_id :: int
  fb_name :: pystr
  fb_email :: pystr
  fb_course :: pystr
  fb_rating :: int
  fb_feedback :: pystr
  fb_created_at :: pystr

text \<open>
  The attributes of a \<open>CourseManager\<close>. \<open>self.courses\<close> is a dict from identifier to
  course; the operations below look it up, store into it and delete from it by key, so
  it is a map.
\<close>

record course_manager =
  courses :: "int \<rightharpoonup> course"
  feedback :: "feedback_entry list"
  next_course_id :: int
  next_feedback_id :: int
  openai_client :: "client option"

text \<open>
  \<open>setup_openai\<close> (the same in both classes): a client when the environment holds a
  non-empty API key and the constructor \<open>openai.OpenAI\<close> does not raise.
\<close>

definition setup_openai :: "pystr option \<Rightarrow> (pystr \<Rightarrow> exn + client) \<Rightarrow> client option" where
  "setup_openai api_key connect =
     (case api_key of
        None \<Rightarrow> None
      | Some k \<Rightarrow>
          (if k \<noteq> [] then (case connect k of Inl e \<Rightarrow> None | Inr cl \<Rightarrow> Some cl) else None))"

subsection \<open>\<open>add_course\<close>, \<open>get_course\<close>, \<open>update_course\<close>, \<open>delete_course\<close>\<close>

text \<open>
  \<open>course_data\<close> is the dict the caller passes. \<open>course_data["title"]\<close> raises
  \<open>KeyError\<close> when the key is missing. Both \<open>add_course\<close> and \<open>update_course\<close> read
  the same six keys in the same order while they build a dict literal, before they
  change anything.
\<close>

type_synonym course_data = "pystr \<rightharpoonup> pystr"

definition subscript :: "course_data \<Rightarrow> pystr \<Rightarrow> exn + pystr" where
  "subscript course_data key =
     (case course_data key of None \<Rightarrow> Inl (KeyError key) | Some v \<Rightarrow> Inr v)"

record course_fields =
  f_title :: pystr
  f_description :: pystr
  f_duration :: pystr
  f_format :: pystr
  f_price :: pystr
  f_category :: pystr

definition read_fields :: "course_data \<Rightarrow> exn + course_fields" where
  "read_fields course_data =
     (case subscript course_data (py ''title'') of Inl e \<Rightarrow> Inl e | Inr t \<Rightarrow>
      case subscript course_data (py ''description'') of Inl e \<Rightarrow> Inl e | Inr d \<Rightarrow>
      case subscript course_data (py ''duration'') of Inl e \<Rightarrow> Inl e | Inr u \<Rightarrow>
      case subscript course_data (py ''format'') of Inl e \<Rightarrow> Inl e | Inr f \<Rightarrow>
      case subscript course_data (py ''price'') of Inl e \<Rightarrow> Inl e | Inr p \<Rightarrow>
      case subscript course_data (py ''category'') of Inl e \<Rightarrow> Inl e | Inr c \<Rightarrow>
        Inr \<lparr>f_title = t, f_description = d, f_duration = u, f_format = f,
             f_price = p, f_category = c\<rparr>)"

text \<open>
  \<open>add_course\<close> reads the clock twice (\<open>datetime.now().strftime(...)\<close> for
  \<open>created_at\<close> and for \<open>updated_at\<close>); the two readings are the arguments \<open>now1\<close>
  and \<open>now2\<close>. It returns the new identifier and the new state, or the \<open>KeyError\<close>,
  raised before the state changes.
\<close>

definition add_course ::
  "course_data \<Rightarrow> pystr \<Rightarrow> pystr \<Rightarrow> course_manager \<Rightarrow> exn + (int \<times> course_manager)" where
  "add_course course_data now1 now2 self =
     (let cid = next_course_id self in
      case read_fields course_data of
        Inl e \<Rightarrow> Inl e
      | Inr f \<Rightarrow>
          Inr (cid,
               self\<lparr>courses := (courses self)(cid \<mapsto>
                        \<lparr>course_id = cid, title = f_title f, description = f_description f,
                         duration = f_duration f, format = f_format f, price = f_price f,
                         category = f_category f, created_at = now1, updated_at = now2\<rparr>),
                     next_course_id := next_course_id self + 1\<rparr>))"

definition get_course :: "int \<Rightarrow> course_manager \<Rightarrow> course option" where
  "get_course cid self = courses self cid"

text \<open>
  \<open>update_course\<close>: \<open>False\<close> and no change when the identifier is absent; otherwise
  the six fields are read (a missing one raises \<open>KeyError\<close>, nothing changed), and
  \<open>dict.update\<close> overwrites them and \<open>updated_at\<close> in the stored course.
\<close>

definition update_course ::
  "int \<Rightarrow> course_data \<Rightarrow> pystr \<Rightarrow> course_manager \<Rightarrow> exn + (bool \<times> course_manager)" where
  "update_course cid course_data now self =
     (case courses self cid of
        None \<Rightarrow> Inr (False, self)
      | Some c \<Rightarrow>
          (case read_fields course_data of
             Inl e \<Rightarrow> Inl e
           | Inr f \<Rightarrow>
               Inr (True,
                    self\<lparr>courses := (courses self)(cid \<mapsto>
                             c\<lparr>title := f_title f, description := f_description f,
                               duration := f_duration f, format := f_format f,
                               price := f_price f, category := f_category f,
                               updated_at := now\<rparr>)\<rparr>)))"

definition delete_course :: "int \<Rightarrow> course_manager \<Rightarrow> bool \<times> course_manager" where
  "delete_course cid self =
     (case courses self cid of
        None \<Rightarrow> (False, self)
      | Some c \<Rightarrow> (True, self\<lparr>courses := (courses self)(cid := None)\<rparr>))"

subsection \<open>\<open>load_sample_data\<close> and the constructor\<close>

definition sample_courses :: "course_data list" where
  "sample_courses =
     [map_of
       [(py ''title'', py ''Executive Leadership Development''),
        (py ''description'', py ''Comprehensive 6-month program for senior executives''),
        (py ''duration'', py ''6 months''),
        (py ''format'', py ''Hybrid''),
        (py ''price'', [8377] @ py ''1,50,000''),
        (py ''category'', py ''Executive'')],
      map_of
       [(py ''title'', py ''Women in Leadership Bootcamp''),
        (py ''description'', py ''Intensive 3-month bootcamp for emerging women leaders''),
        (py ''duration'', py ''3 months''),
        (py ''format'', py ''Online''),
        (py ''price'', [8377] @ py ''75,000''),
        (py ''category'', py ''Leadership'')],
      map_of
       [(py ''title'', py ''Personal Branding Program''),
        (py ''description'', py ''Build your professional brand and communication skills''),
        (py ''duration'', py ''3 months''),
        (py ''format'', py ''Hybrid''),
        (py ''price'', [8377] @ py ''50,000''),
        (py ''category'', py ''Branding'')]]"


text \<open>
  The loop \<open>for course_data in sample_courses: self.add_course(course_data)\<close>.
  \<open>clock k\<close> is the \<open>k\<close>-th reading of the clock since the loop began; each
  \<open>add_course\<close> takes two.
\<close>

fun add_courses ::
  "course_data list \<Rightarrow> (nat \<Rightarrow> pystr) \<Rightarrow> nat \<Rightarrow> course_manager \<Rightarrow> exn + course_manager" where
  "add_courses [] clock k self = Inr self"
| "add_courses (course_data # rest) clock k self =
     (case add_course course_data (clock k) (clock (k + 1)) self of
        Inl e \<Rightarrow> Inl e
      | Inr (cid, self') \<Rightarrow> add_courses rest clock (k + 2) self')"

definition load_sample_data :: "(nat \<Rightarrow> pystr) \<Rightarrow> course_manager \<Rightarrow> exn + course_manager" where
  "load_sample_data clock self = add_courses sample_courses clock 0 self"

text \<open>
  \<open>CourseManager.__init__\<close>: the attribute assignments give the empty store with both
  counters at 1 and the client from \<open>setup_openai\<close>; then the sample data is loaded.
\<close>

definition new_manager :: "client option \<Rightarrow> course_manager" where
  "new_manager cl =
     \<lparr>courses = Map.empty, feedback = [], next_course_id = 1, next_feedback_id = 1,
      openai_client = cl\<rparr>"

definition init ::
  "pystr option \<Rightarrow> (pystr \<Rightarrow> exn + client) \<Rightarrow> (nat \<Rightarrow> pystr) \<Rightarrow> exn + course_manager" where
  "init api_key connect clock = load_sample_data clock (new_manager (setup_openai api_key connect))"

subsection \<open>\<open>generate_course_suggestions\<close>\<close>

text \<open>\<open>s.split(sep)\<close> for a separator of one code point: the pieces between the separators.\<close>

fun split_on :: "nat \<Rightarrow> pystr \<Rightarrow> pystr list" where
  "split_on sep [] = [[]]"
| "split_on sep (c # cs) =
     (if c = sep then [] # split_on sep cs
      else (case split_on sep cs of [] \<Rightarrow> [[c]] | piece # pieces \<Rightarrow> (c # piece) # pieces))"

definition suggestion_prompt_head :: pystr where
  "suggestion_prompt_head =
     py ''Generate 4 creative course title suggestions for Iron Lady Leadership Programs.'' @ [10] @
     py ''            Focus on women'' @ [39] @ py ''s leadership development and empowerment.'' @
     [10] @ py ''            ''"

definition suggestion_prompt_tail :: pystr where
  "suggestion_prompt_tail =
     [10] @ py ''            '' @ [10] @
     py ''            Return only the course titles, one per line.''"

definition suggestion_request :: "pystr \<Rightarrow> request" where
  "suggestion_request category_hint =
     \<lparr>model = py ''gpt-3.5-turbo'',
      messages =
        [(py ''user'',
          suggestion_prompt_head @
          (if category_hint \<noteq> [] then py ''Category focus: '' @ category_hint else []) @
          suggestion_prompt_tail)],
      max_tokens = 150,
      temperature = 0.8\<rparr>"

text \<open>
  The \<open>try\<close> block: the call, the stripped content split at line feeds, and of every
  piece that is not blank the text without surrounding hyphens, spaces and white space.
\<close>

definition generate_course_suggestions_try :: "client \<Rightarrow> pystr \<Rightarrow> exn + pystr list" where
  "generate_course_suggestions_try cl category_hint =
     (case cl (suggestion_request category_hint) of
        Inl e \<Rightarrow> Inl e
      | Inr response \<Rightarrow>
          (case first_content_stripped response of
             Inl e \<Rightarrow> Inl e
           | Inr text \<Rightarrow>
               Inr (map (\<lambda>s. strip (strip_chars (py ''- '') s))
                      (filter (\<lambda>s. strip s \<noteq> []) (split_on 10 text)))))"

definition generate_course_suggestions :: "pystr \<Rightarrow> course_manager \<Rightarrow> pystr list" where
  "generate_course_suggestions category_hint self =
     (case openai_client self of
        None \<Rightarrow>
          [py ''Advanced Leadership Communication'',
           py ''Digital Transformation for Leaders'',
           py ''Emotional Intelligence in Leadership'',
           py ''Strategic Decision Making Workshop'']
      | Some cl \<Rightarrow>
          (case generate_course_suggestions_try cl category_hint of
             Inl e \<Rightarrow>
               [py ''Advanced Leadership Communication'', py ''Digital Transformation for Leaders'']
           | Inr suggestions \<Rightarrow> suggestions))"

subsection \<open>\<open>summarize_feedback\<close>\<close>

text \<open>\<open>str(n)\<close> of an integer, as the f-string formats the rating.\<close>

fun digits :: "nat \<Rightarrow> pystr" where
  "digits n = (if n < 10 then [48 + n] else digits (n div 10) @ [48 + n mod 10])"

definition str_int :: "int \<Rightarrow> pystr" where
  "str_int i = (if i < 0 then 45 # digits (nat (- i)) else digits (nat i))"

text \<open>\<open>sep.join(parts)\<close>.\<close>

fun join :: "pystr \<Rightarrow> pystr list \<Rightarrow> pystr" where
  "join sep [] = []"
| "join sep [part] = part"
| "join sep (part # parts) = part @ sep @ join sep parts"

text \<open>\<open>self.feedback[-10:]\<close>: the last ten entries, all of them when there are fewer.\<close>

definition last_ten :: "'a list \<Rightarrow> 'a list" where
  "last_ten xs = drop (length xs - 10) xs"

definition summary_prompt_head :: pystr where
  "summary_prompt_head =
     py ''Summarize the following student feedback for Iron Lady Leadership Programs.'' @ [10] @
     py ''            Provide key insights, common themes, and overall sentiment:'' @ [10] @
     py ''            '' @ [10] @ py ''            ''"

definition summary_request :: "feedback_entry list \<Rightarrow> request" where
  "summary_request entries =
     (let feedback_text =
            join [10]
              (map (\<lambda>f. py ''Rating: '' @ str_int (fb_rating f) @ py ''/5 - '' @ fb_feedback f)
                 (last_ten entries))
      in \<lparr>model = py ''gpt-3.5-turbo'',
          messages = [(py ''user'', summary_prompt_head @ feedback_text)],
          max_tokens = 200,
          temperature = 0.5\<rparr>)"

definition summarize_feedback_try :: "client \<Rightarrow> feedback_entry list \<Rightarrow> exn + pystr" where
  "summarize_feedback_try cl entries =
     (case cl (summary_request entries) of
        Inl e \<Rightarrow> Inl e
      | Inr response \<Rightarrow> first_content_stripped response)"

definition summarize_feedback :: "course_manager \<Rightarrow> pystr" where
  "summarize_feedback self =
     (if feedback self = [] then py ''No feedback available for summary.''
      else
        (case openai_client self of
           None \<Rightarrow> py ''No feedback available for summary.''
         | Some cl \<Rightarrow>
             (case summarize_feedback_try cl (feedback self) of
                Inl e \<Rightarrow> py ''Unable to generate feedback summary at this time.''
              | Inr summary \<Rightarrow> summary)))"

section \<open>Vocabulary of the properties\<close>

subsection \<open>Occurrence of keywords\<close>

text \<open>
  \<open>kw\<close> is a substring of \<open>s\<close>: some text before it and some text after it make up
  \<open>s\<close>. \<open>keyword_occurs i s\<close>: some trigger keyword of the \<open>i\<close>-th topic of the
  keyword table is a substring of \<open>s\<close>.
\<close>

definition occurs_in :: "pystr \<Rightarrow> pystr \<Rightarrow> bool" where
  "occurs_in kw s = (\<exists>before after. s = before @ kw @ after)"

definition keyword_occurs :: "nat \<Rightarrow> pystr \<Rightarrow> bool" where
  "keyword_occurs i s = (\<exists>kw\<in>set (snd (keywords_table ! i)). occurs_in kw s)"

subsection \<open>Callers of the store\<close>

text \<open>The six keys \<open>add_course\<close> and \<open>update_course\<close> read from \<open>course_data\<close>.\<close>

definition field_names :: "pystr list" where
  "field_names =
     [py ''title'', py ''description'', py ''duration'', py ''format'', py ''price'', py ''category'']"

text \<open>
  A caller that performs a sequence of \<open>add_course\<close> and \<open>delete_course\<close> calls.
  \<open>run_ops\<close> returns the identifiers the \<open>add_course\<close> calls returned, in order, and
  the final state. An \<open>add_course\<close> that raises \<open>KeyError\<close> returns no identifier and
  leaves the state as it was; the caller goes on. \<open>returns_id\<close> tells the calls that
  return an identifier.
\<close>

datatype store_op = Add course_data pystr pystr | Delete int

fun returns_id :: "store_op \<Rightarrow> bool" where
  "returns_id (Add course_data now1 now2) =
     (case read_fields course_data of Inl e \<Rightarrow> False | Inr f \<Rightarrow> True)"
| "returns_id (Delete cid) = False"

fun run_ops :: "store_op list \<Rightarrow> course_manager \<Rightarrow> int list \<times> course_manager" where
  "run_ops [] self = ([], self)"
| "run_ops (Add course_data now1 now2 # ops) self =
     (case add_course course_data now1 now2 self of
        Inl e \<Rightarrow> run_ops ops self
      | Inr (cid, self') \<Rightarrow> (case run_ops ops self' of (ids, final) \<Rightarrow> (cid # ids, final)))"
| "run_ops (Delete cid # ops) self = run_ops ops (snd (delete_course cid self))"

subsection \<open>Example backends and clocks\<close>

text \<open>
  A backend whose every call raises, a backend that answers every call with one choice
  holding the given text, a constructor of clients that raises, and a clock that always
  reads the same time.
\<close>

definition failing :: client where
  "failing req = Inl BackendError"

definition replying :: "pystr \<Rightarrow> client" where
  "replying text req = Inr [Some text]"

definition refusing :: "pystr \<Rightarrow> exn + client" where
  "refusing api_key = Inl BackendError"

definition fixed_clock :: "nat \<Rightarrow> pystr" where
  "fixed_clock k = py ''2024-01-01 00:00:00''"

text \<open>
  A course as \<open>add_course\<close> stores it, a store that holds it under 1 and another course
  under 2, and a feedback entry.
\<close>

definition first_course :: course where
  "first_course =
     \<lparr>course_id = 1, title = py ''Negotiation'', description = py ''Negotiation for leaders'',
      duration = py ''1 month'', format = py ''Online'', price = py ''10,000'',
      category = py ''Skills'', created_at = py ''2024-01-01 00:00:00'',
      updated_at = py ''2024-01-01 00:00:00''\<rparr>"

definition two_courses :: course_manager where
  "two_courses =
     \<lparr>courses = [1 \<mapsto> first_course,
                 2 \<mapsto> first_course\<lparr>course_id := 2, title := py ''Public Speaking''\<rparr>],
      feedback = [], next_course_id = 3, next_feedback_id = 1, openai_client = None\<rparr>"

definition one_feedback :: feedback_entry where
  "one_feedback =
     \<lparr>fb_id = 1, fb_name = py ''Asha'', fb_email = py ''asha at example.org'',
      fb_course = py ''Negotiation'', fb_rating = 5, fb_feedback = py ''Very useful'',
      fb_created_at = py ''2024-02-01 09:30:00''\<rparr>"

section \<open>Properties of the FAQ engine\<close>

subsection \<open>Strings\<close>

lemma str_in_occurs: "str_in kw s = occurs_in kw s"
proof (induction s)
  case Nil
  show ?case by (simp add: occurs_in_def)
next
  case (Cons c cs)
  have "occurs_in kw (c # cs) \<longleftrightarrow> prefix kw (c # cs) \<or> occurs_in kw cs"
  proof
    assume "occurs_in kw (c # cs)"
    then obtain pre post where e: "c # cs = pre @ kw @ post"
      unfolding occurs_in_def by blast
    show "prefix kw (c # cs) \<or> occurs_in kw cs"
    proof (cases pre)
      case Nil
      with e show ?thesis by (simp add: prefix_def)
    next
      case (Cons p ps)
      with e have "cs = ps @ kw @ post" by simp
      then show ?thesis unfolding occurs_in_def by blast
    qed
  next
    assume "prefix kw (c # cs) \<or> occurs_in kw cs"
    then show "occurs_in kw (c # cs)"
    proof
      assume "prefix kw (c # cs)"
      then obtain zs where "c # cs = [] @ kw @ zs" by (auto simp: prefix_def)
      then show ?thesis unfolding occurs_in_def by blast
    next
      assume "occurs_in kw cs"
      then obtain pre post where "cs = pre @ kw @ post" unfolding occurs_in_def by blast
      then have "c # cs = (c # pre) @ kw @ post" by simp
      then show ?thesis unfolding occurs_in_def by blast
    qed
  qed
  with Cons show ?case by simp
qed

lemma strip_Nil_iff: "strip s = [] \<longleftrightarrow> (\<forall>c\<in>set s. isspace c)"
proof
  assume "strip s = []"
  then have all: "\<forall>x\<in>set (dropWhile isspace s). isspace x"
    by (simp add: strip_def dropWhile_eq_Nil_conv)
  have "dropWhile isspace s = []"
  proof (rule ccontr)
    assume ne: "dropWhile isspace s \<noteq> []"
    then have "\<not> isspace (hd (dropWhile isspace s))" by (rule hd_dropWhile)
    moreover from ne have "hd (dropWhile isspace s) \<in> set (dropWhile isspace s)" by simp
    ultimately show False using all by blast
  qed
  then show "\<forall>c\<in>set s. isspace c" by (simp add: dropWhile_eq_Nil_conv)
next
  assume "\<forall>c\<in>set s. isspace c"
  then show "strip s = []" by (auto simp: strip_def dest: set_dropWhileD)
qed

subsection \<open>The tables\<close>

lemma programs_answer_nonempty: "programs_answer \<noteq> []"
  by (simp add: programs_answer_def py_def)

lemma duration_answer_nonempty: "duration_answer \<noteq> []"
  by (simp add: duration_answer_def py_def)

lemma format_answer_nonempty: "format_answer \<noteq> []"
  by (simp add: format_answer_def py_def)

lemma certificates_answer_nonempty: "certificates_answer \<noteq> []"
  by (simp add: certificates_answer_def py_def)

lemma mentors_answer_nonempty: "mentors_answer \<noteq> []"
  by (simp add: mentors_answer_def py_def)

lemmas answers_nonempty =
  programs_answer_nonempty duration_answer_nonempty format_answer_nonempty
  certificates_answer_nonempty mentors_answer_nonempty

text \<open>Every topic of the keyword table is a non-empty string with a non-empty FAQ answer.\<close>

lemma topic_has_answer:
  assumes "topic \<in> fst ` set keywords_table"
  shows "topic \<noteq> [] \<and> (\<exists>entry. map_of faq_data topic = Some entry \<and> answer entry \<noteq> [])"
proof -
  from assms have "topic = py ''programs'' \<or> topic = py ''duration'' \<or> topic = py ''format'' \<or>
      topic = py ''certificates'' \<or> topic = py ''mentors''"
    by (auto simp: keywords_table_def)
  then show ?thesis
    by (elim disjE) (simp_all add: faq_data_def py_def answers_nonempty)
qed

lemma find_intent_loop_in_table:
  "find_intent_loop tbl low = Some topic \<Longrightarrow> topic \<in> fst ` set tbl"
  by (induction tbl low rule: find_intent_loop.induct) (auto split: if_splits)

lemma faq_response_for_Some:
  assumes "find_intent user_input = Some topic"
  shows "\<exists>entry. map_of faq_data topic = Some entry \<and> answer entry \<noteq> [] \<and>
           faq_response_for user_input = Some (answer entry)"
proof -
  from assms have "topic \<in> fst ` set keywords_table"
    unfolding find_intent_def by (rule find_intent_loop_in_table)
  then obtain entry where "topic \<noteq> []" "map_of faq_data topic = Some entry" "answer entry \<noteq> []"
    using topic_has_answer by blast
  with assms show ?thesis
    by (simp add: faq_response_for_def get_faq_response_def)
qed

lemma faq_response_for_None:
  "find_intent user_input = None \<Longrightarrow> faq_response_for user_input = None"
  by (simp add: faq_response_for_def)

lemma find_intent_loop_find:
  "find_intent_loop tbl low =
     map_option fst (find (\<lambda>e. list_ex (\<lambda>kw. str_in kw low) (snd e)) tbl)"
  by (induction tbl low rule: find_intent_loop.induct) simp_all

text \<open>
  When the keywords of exactly one entry of a table occur, the loop returns that entry's
  topic.
\<close>

lemma find_intent_loop_single:
  assumes "(topic, kws) \<in> set tbl"
    and "list_ex (\<lambda>kw. str_in kw low) kws"
    and "\<forall>(topic', kws') \<in> set tbl. topic' \<noteq> topic \<longrightarrow> \<not> list_ex (\<lambda>kw. str_in kw low) kws'"
  shows "find_intent_loop tbl low = Some topic"
  using assms
proof (induction tbl low rule: find_intent_loop.induct)
  case (1 low)
  then show ?case by simp
next
  case (2 intent kws0 rest low)
  show ?case
  proof (cases "list_ex (\<lambda>kw. str_in kw low) kws0")
    case True
    with "2.prems"(3) have "intent = topic" by auto
    with True show ?thesis by simp
  next
    case False
    with "2.prems"(1,2) have "(topic, kws) \<in> set rest" by auto
    moreover from "2.prems"(3) have
      "\<forall>(topic', kws') \<in> set rest. topic' \<noteq> topic \<longrightarrow> \<not> list_ex (\<lambda>kw. str_in kw low) kws'"
      by auto
    ultimately have "find_intent_loop rest low = Some topic"
      using "2.IH" False "2.prems"(2) by blast
    with False show ?thesis by simp
  qed
qed

subsection \<open>Claim C1: one matching topic, no backend\<close>

text \<open>
  C1, the example of the specification. The input \<open>how long is the program\<close> contains
  \<open>long\<close>, a keyword of the topic \<open>duration\<close>, and also \<open>program\<close>, a keyword of the
  topic \<open>programs\<close>, which comes first in the table: without a backend the reply is the
  answer of \<open>programs\<close>, not the answer of \<open>duration\<close>.
\<close>

theorem get_response_example_counterexample:
  "fst (get_response None (py ''how long is the program'')) = programs_answer \<and>
   fst (get_response None (py ''how long is the program'')) \<noteq> duration_answer"
proof -
  have "fst (get_response None (py ''how long is the program'')) = programs_answer"
    by (simp add: get_response_def get_ai_response_def faq_response_for_def find_intent_def
        keywords_table_def lower_def lower_cp_def py_def strip_def isspace_def get_faq_response_def
        faq_data_def truthy_def or_empty_def programs_answer_def)
  moreover have "programs_answer \<noteq> duration_answer"
    by (simp add: programs_answer_def duration_answer_def py_def)
  ultimately show ?thesis by simp
qed

text \<open>
  C1, as amended. For every input that is not blank, when a keyword of one topic of the
  table occurs in the lower-cased input and no keyword of any other topic does, and no
  backend is configured, \<open>get_response\<close> returns the answer that \<open>faq_data\<close> holds for
  that topic, and sends no request.
\<close>

theorem get_response_single_topic:
  assumes "strip user_input \<noteq> []"
    and "(topic, kws) \<in> set keywords_table"
    and "\<exists>kw\<in>set kws. occurs_in kw (lower user_input)"
    and "\<forall>(topic', kws') \<in> set keywords_table.
           topic' \<noteq> topic \<longrightarrow> (\<forall>kw\<in>set kws'. \<not> occurs_in kw (lower user_input))"
  shows "\<exists>entry. map_of faq_data topic = Some entry \<and>
           get_response None user_input = (answer entry, [])"
proof -
  have "find_intent user_input = Some topic"
    unfolding find_intent_def
    using assms(2-4) by (intro find_intent_loop_single [where kws = kws])
      (auto simp: list_ex_iff str_in_occurs)
  then obtain entry where e: "map_of faq_data topic = Some entry" "answer entry \<noteq> []"
      "faq_response_for user_input = Some (answer entry)"
    using faq_response_for_Some by blast
  with assms(1) have "get_response None user_input = (answer entry, [])"
    by (simp add: get_response_def get_ai_response_def truthy_def or_empty_def)
  with e(1) show ?thesis by blast
qed

text \<open>
  The input \<open>How LONG is it?\<close> is not blank; lower-cased it contains \<open>long\<close> and no
  keyword of another topic; the reply is the answer of \<open>duration\<close>.
\<close>

theorem get_response_single_topic_witness:
  "strip (py ''How LONG is it?'') \<noteq> [] \<and>
   (py ''duration'', [py ''duration'', py ''time'', py ''long'', py ''period'', py ''months'', py ''weeks''])
      \<in> set keywords_table \<and>
   occurs_in (py ''long'') (lower (py ''How LONG is it?'')) \<and>
   get_response None (py ''How LONG is it?'') = (duration_answer, [])"
proof -
  let ?s = "py ''How LONG is it?''"
  let ?kws = "[py ''duration'', py ''time'', py ''long'', py ''period'', py ''months'', py ''weeks'']"
  have a: "strip ?s \<noteq> []"
    by (simp add: strip_def py_def isspace_def)
  have b: "(py ''duration'', ?kws) \<in> set keywords_table"
    by (simp add: keywords_table_def)
  have o: "occurs_in (py ''long'') (lower ?s)"
    by (simp add: str_in_occurs [symmetric] lower_def lower_cp_def py_def)
  then have c: "\<exists>kw\<in>set ?kws. occurs_in kw (lower ?s)" by simp
  have d: "\<forall>(topic', kws') \<in> set keywords_table.
           topic' \<noteq> py ''duration'' \<longrightarrow> (\<forall>kw\<in>set kws'. \<not> occurs_in kw (lower ?s))"
    by (simp add: keywords_table_def str_in_occurs [symmetric] lower_def lower_cp_def py_def)
  from get_response_single_topic [OF a b c d]
  have "get_response None ?s = (duration_answer, [])"
    by (simp add: faq_data_def py_def)
  with a b o show ?thesis by blast
qed

subsection \<open>Claim C2: the first matching topic wins\<close>

text \<open>
  C2. The topics of the table are, in order, \<open>programs\<close>, \<open>duration\<close>, \<open>format\<close>,
  \<open>certificates\<close>, \<open>mentors\<close>. For every input, \<open>find_intent\<close> returns a topic exactly
  when it is the topic of the first entry of the table one of whose keywords is a
  substring of the lower-cased input (no earlier entry has such a keyword), and it
  returns \<open>None\<close> exactly when no entry has one.
\<close>

theorem find_intent_first_match:
  "map fst keywords_table =
     [py ''programs'', py ''duration'', py ''format'', py ''certificates'', py ''mentors''] \<and>
   (find_intent user_input = Some topic \<longleftrightarrow>
      (\<exists>i<length keywords_table. topic = fst (keywords_table ! i) \<and>
         keyword_occurs i (lower user_input) \<and>
         (\<forall>j<i. \<not> keyword_occurs j (lower user_input)))) \<and>
   (find_intent user_input = None \<longleftrightarrow>
      (\<forall>i<length keywords_table. \<not> keyword_occurs i (lower user_input)))"
proof (intro conjI)
  show "map fst keywords_table =
     [py ''programs'', py ''duration'', py ''format'', py ''certificates'', py ''mentors'']"
    by (simp add: keywords_table_def)
next
  let ?P = "\<lambda>e. list_ex (\<lambda>kw. str_in kw (lower user_input)) (snd e)"
  have P: "?P (keywords_table ! i) = keyword_occurs i (lower user_input)" for i
    by (simp add: keyword_occurs_def list_ex_iff str_in_occurs)
  show "find_intent user_input = Some topic \<longleftrightarrow>
      (\<exists>i<length keywords_table. topic = fst (keywords_table ! i) \<and>
         keyword_occurs i (lower user_input) \<and>
         (\<forall>j<i. \<not> keyword_occurs j (lower user_input)))"
  proof -
    have "find_intent user_input = Some topic \<longleftrightarrow>
            (\<exists>e. find ?P keywords_table = Some e \<and> fst e = topic)"
      by (simp add: find_intent_def find_intent_loop_find map_option_eq_Some)
    also have "\<dots> \<longleftrightarrow> (\<exists>i<length keywords_table. topic = fst (keywords_table ! i) \<and>
         ?P (keywords_table ! i) \<and> (\<forall>j<i. \<not> ?P (keywords_table ! j)))"
      unfolding find_Some_iff by blast
    finally show ?thesis unfolding P .
  qed
  show "find_intent user_input = None \<longleftrightarrow>
      (\<forall>i<length keywords_table. \<not> keyword_occurs i (lower user_input))"
  proof -
    have "find_intent user_input = None \<longleftrightarrow> find ?P keywords_table = None"
      by (simp add: find_intent_def find_intent_loop_find)
    also have "\<dots> \<longleftrightarrow> (\<forall>e\<in>set keywords_table. \<not> ?P e)"
      by (auto simp: find_None_iff)
    also have "\<dots> \<longleftrightarrow> (\<forall>i<length keywords_table. \<not> ?P (keywords_table ! i))"
      by (rule all_set_conv_all_nth)
    finally show ?thesis unfolding P .
  qed
qed

text \<open>
  In \<open>Online COURSE\<close> a keyword of \<open>programs\<close> (entry 0) and a keyword of \<open>format\<close>
  (entry 2) occur; the intent is \<open>programs\<close>. In \<open>hello\<close> no keyword occurs; the intent
  is \<open>None\<close>.
\<close>

theorem find_intent_first_match_witness:
  "keyword_occurs 0 (lower (py ''Online COURSE'')) \<and>
   keyword_occurs 2 (lower (py ''Online COURSE'')) \<and>
   find_intent (py ''Online COURSE'') = Some (py ''programs'') \<and>
   \<not> keyword_occurs 0 (lower (py ''hello'')) \<and> \<not> keyword_occurs 1 (lower (py ''hello'')) \<and>
   \<not> keyword_occurs 2 (lower (py ''hello'')) \<and> \<not> keyword_occurs 3 (lower (py ''hello'')) \<and>
   \<not> keyword_occurs 4 (lower (py ''hello'')) \<and> length keywords_table = 5 \<and>
   find_intent (py ''hello'') = None"
proof -
  have k0: "keyword_occurs 0 (lower (py ''Online COURSE''))"
    and k2: "keyword_occurs 2 (lower (py ''Online COURSE''))"
    by (simp_all add: keyword_occurs_def str_in_occurs [symmetric] keywords_table_def
        lower_def lower_cp_def py_def)
  have "0 < length keywords_table" "py ''programs'' = fst (keywords_table ! 0)"
    by (simp_all add: keywords_table_def)
  with k0 have "\<exists>i<length keywords_table. py ''programs'' = fst (keywords_table ! i) \<and>
         keyword_occurs i (lower (py ''Online COURSE'')) \<and>
         (\<forall>j<i. \<not> keyword_occurs j (lower (py ''Online COURSE'')))"
    by (intro exI [of _ 0]) simp
  with find_intent_first_match [of "py ''Online COURSE''" "py ''programs''"]
  have f1: "find_intent (py ''Online COURSE'') = Some (py ''programs'')" by blast
  have n: "\<not> keyword_occurs 0 (lower (py ''hello''))" "\<not> keyword_occurs 1 (lower (py ''hello''))"
    "\<not> keyword_occurs 2 (lower (py ''hello''))" "\<not> keyword_occurs 3 (lower (py ''hello''))"
    "\<not> keyword_occurs 4 (lower (py ''hello''))"
    by (simp_all add: keyword_occurs_def str_in_occurs [symmetric] keywords_table_def
        lower_def lower_cp_def py_def)
  have len: "length keywords_table = 5" by (simp add: keywords_table_def)
  have none: "\<forall>i<length keywords_table. \<not> keyword_occurs i (lower (py ''hello''))"
  proof (intro allI impI)
    fix i assume "i < length keywords_table"
    with len have "i = 0 \<or> i = 1 \<or> i = 2 \<or> i = 3 \<or> i = 4" by arith
    with n show "\<not> keyword_occurs i (lower (py ''hello''))" by blast
  qed
  with find_intent_first_match [of "py ''hello''" "[]"]
  have f2: "find_intent (py ''hello'') = None" by blast
  from k0 k2 f1 n len f2 show ?thesis by blast
qed

subsection \<open>Claim C3: a backend that fails\<close>

text \<open>
  C3. For every input that is not blank, when a backend is configured and the \<open>try\<close>
  block of \<open>get_ai_response\<close> raises (the call raises, or the response has no choice or
  no content), \<open>get_response\<close> returns a reply and no exception: the menu message when
  no intent was found, the FAQ answer of the intent when one was found.
\<close>

theorem get_response_backend_failure:
  assumes "strip user_input \<noteq> []"
    and "get_ai_response_try cl user_input (or_empty (faq_response_for user_input)) = Inl e"
  shows "(find_intent user_input = None \<longrightarrow>
            fst (get_response (Some cl) user_input) = menu_message) \<and>
         (\<forall>topic. find_intent user_input = Some topic \<longrightarrow>
            (\<exists>entry. map_of faq_data topic = Some entry \<and>
               fst (get_response (Some cl) user_input) = answer entry))"
proof (intro conjI allI impI)
  assume "find_intent user_input = None"
  then have "faq_response_for user_input = None" by (rule faq_response_for_None)
  with assms show "fst (get_response (Some cl) user_input) = menu_message"
    by (simp add: get_response_def get_ai_response_def truthy_def)
next
  fix topic
  assume "find_intent user_input = Some topic"
  then obtain entry where e: "map_of faq_data topic = Some entry" "answer entry \<noteq> []"
      "faq_response_for user_input = Some (answer entry)"
    using faq_response_for_Some by blast
  with assms have "fst (get_response (Some cl) user_input) = answer entry"
    by (simp add: get_response_def get_ai_response_def truthy_def)
  with e(1) show "\<exists>entry. map_of faq_data topic = Some entry \<and>
               fst (get_response (Some cl) user_input) = answer entry"
    by blast
qed

text \<open>
  With the backend \<open>failing\<close>: \<open>hello there\<close> has no intent and gets the menu message,
  \<open>Any mentors?\<close> has the intent \<open>mentors\<close> and gets its answer.
\<close>

theorem get_response_backend_failure_witness:
  "strip (py ''hello there'') \<noteq> [] \<and>
   get_ai_response_try failing (py ''hello there'')
     (or_empty (faq_response_for (py ''hello there''))) = Inl BackendError \<and>
   find_intent (py ''hello there'') = None \<and>
   fst (get_response (Some failing) (py ''hello there'')) = menu_message \<and>
   strip (py ''Any mentors?'') \<noteq> [] \<and>
   get_ai_response_try failing (py ''Any mentors?'')
     (or_empty (faq_response_for (py ''Any mentors?''))) = Inl BackendError \<and>
   find_intent (py ''Any mentors?'') = Some (py ''mentors'') \<and>
   fst (get_response (Some failing) (py ''Any mentors?'')) = mentors_answer"
proof -
  have a1: "strip (py ''hello there'') \<noteq> []" and a2: "strip (py ''Any mentors?'') \<noteq> []"
    by (simp_all add: strip_def py_def isspace_def)
  have b: "get_ai_response_try failing s c = Inl BackendError" for s c
    by (simp add: get_ai_response_try_def failing_def)
  have f1: "find_intent (py ''hello there'') = None"
    by (simp add: find_intent_def keywords_table_def lower_def lower_cp_def py_def)
  have f2: "find_intent (py ''Any mentors?'') = Some (py ''mentors'')"
    by (simp add: find_intent_def keywords_table_def lower_def lower_cp_def py_def)
  have m: "map_of faq_data (py ''mentors'') =
      Some \<lparr>question = mentors_question, answer = mentors_answer\<rparr>"
    by (simp add: faq_data_def py_def)
  from get_response_backend_failure [OF a1 b] f1
  have r1: "fst (get_response (Some failing) (py ''hello there'')) = menu_message" by simp
  from get_response_backend_failure [OF a2 b] f2 m
  have r2: "fst (get_response (Some failing) (py ''Any mentors?'')) = mentors_answer" by auto
  from a1 a2 b f1 f2 r1 r2 show ?thesis by simp
qed

subsection \<open>Claim C4: a backend that succeeds\<close>

text \<open>
  C4, as stated. The backend answers \<open>what programs\<close> with the text \<open>Hi\<close> followed by a
  space; the reply is \<open>Hi\<close>, not the output of the backend as it came.
\<close>

theorem get_response_verbatim_counterexample:
  "fst (get_response (Some (replying (py ''Hi ''))) (py ''what programs'')) = py ''Hi'' \<and>
   fst (get_response (Some (replying (py ''Hi ''))) (py ''what programs'')) \<noteq> py ''Hi ''"
  by (simp add: get_response_def get_ai_response_def get_ai_response_try_def replying_def
      first_content_stripped_def truthy_def strip_def isspace_def py_def split: prod.splits)

text \<open>
  C4, as amended. For every input that is not blank, when the backend is configured and
  its call returns a response whose first choice holds a text that is not blank, the
  reply is that text with the white space at both ends removed, whatever the FAQ answer
  of the intent would have been.
\<close>

theorem get_response_backend_success:
  assumes "strip user_input \<noteq> []"
    and "cl (ai_request user_input (or_empty (faq_response_for user_input))) =
           Inr (Some text # others)"
    and "strip text \<noteq> []"
  shows "fst (get_response (Some cl) user_input) = strip text"
  using assms
  by (simp add: get_response_def get_ai_response_def get_ai_response_try_def
      first_content_stripped_def truthy_def)

text \<open>
  The input \<open>what programs\<close> has the intent \<open>programs\<close>; the backend's text, which has
  no white space at its ends, is the reply.
\<close>

theorem get_response_backend_success_witness:
  "strip (py ''what programs'') \<noteq> [] \<and>
   replying (py ''We offer six programs.'')
     (ai_request (py ''what programs'') (or_empty (faq_response_for (py ''what programs'')))) =
     Inr [Some (py ''We offer six programs.'')] \<and>
   strip (py ''We offer six programs.'') = py ''We offer six programs.'' \<and>
   find_intent (py ''what programs'') = Some (py ''programs'') \<and>
   fst (get_response (Some (replying (py ''We offer six programs.''))) (py ''what programs'')) =
     py ''We offer six programs.''"
proof -
  let ?t = "py ''We offer six programs.''"
  have a: "strip (py ''what programs'') \<noteq> []"
    by (simp add: strip_def py_def isspace_def)
  have b: "replying ?t
     (ai_request (py ''what programs'') (or_empty (faq_response_for (py ''what programs'')))) =
     Inr (Some ?t # [])"
    by (simp add: replying_def)
  have c: "strip ?t = ?t"
    by (simp add: strip_def py_def isspace_def)
  then have c': "strip ?t \<noteq> []"
    by (simp add: py_def)
  have f: "find_intent (py ''what programs'') = Some (py ''programs'')"
    by (simp add: find_intent_def keywords_table_def lower_def lower_cp_def py_def)
  from get_response_backend_success [of "py ''what programs''" "replying ?t" ?t "[]", OF a b c']
    a b c f show ?thesis by simp
qed

subsection \<open>Claim C5: blank input\<close>

text \<open>
  C5. For every input all of whose code points are white space (the empty input among
  them) and for every backend, configured or not, \<open>get_response\<close> returns the message
  that asks for input and sends no request to the backend.
\<close>

theorem get_response_blank:
  assumes "\<forall>c\<in>set user_input. isspace c"
  shows "get_response backend user_input = (prompt_for_input_message, [])"
  using assms by (simp add: get_response_def strip_Nil_iff)

text \<open>A space, a tab, a line feed and a no-break space, with a backend; the empty input, without.\<close>

theorem get_response_blank_witness:
  "isspace 32 \<and> isspace 9 \<and> isspace 10 \<and> isspace 160 \<and>
   get_response (Some (replying (py ''Hi''))) [32, 9, 10, 160] = (prompt_for_input_message, []) \<and>
   get_response None [] = (prompt_for_input_message, [])"
proof -
  have a: "\<forall>c\<in>set [32, 9, 10, 160]. isspace c" by (simp add: isspace_def)
  have b: "\<forall>c\<in>set ([] :: pystr). isspace c" by simp
  have c: "isspace 32 \<and> isspace 9 \<and> isspace 10 \<and> isspace 160" by (simp add: isspace_def)
  from get_response_blank [OF a] get_response_blank [OF b] c show ?thesis by blast
qed

section \<open>Properties of the course store\<close>

subsection \<open>Reading the fields, and the counter\<close>

lemma read_fields_complete:
  assumes "set field_names \<subseteq> dom course_data"
  shows "\<exists>f. read_fields course_data = Inr f \<and>
           course_data (py ''title'') = Some (f_title f) \<and>
           course_data (py ''description'') = Some (f_description f) \<and>
           course_data (py ''duration'') = Some (f_duration f) \<and>
           course_data (py ''format'') = Some (f_format f) \<and>
           course_data (py ''price'') = Some (f_price f) \<and>
           course_data (py ''category'') = Some (f_category f)"
proof -
  from assms obtain t d u f p c where
    "course_data (py ''title'') = Some t" "course_data (py ''description'') = Some d"
    "course_data (py ''duration'') = Some u" "course_data (py ''format'') = Some f"
    "course_data (py ''price'') = Some p" "course_data (py ''category'') = Some c"
    by (auto simp: field_names_def dom_def)
  then show ?thesis by (simp add: read_fields_def subscript_def)
qed

lemma add_course_Inr:
  assumes "add_course course_data now1 now2 self = Inr (cid, self')"
  shows "cid = next_course_id self \<and> next_course_id self' = next_course_id self + 1 \<and>
         returns_id (Add course_data now1 now2)"
  using assms by (auto simp: add_course_def Let_def split: sum.splits)

lemma add_course_Inl:
  assumes "add_course course_data now1 now2 self = Inl e"
  shows "\<not> returns_id (Add course_data now1 now2)"
  using assms by (auto simp: add_course_def Let_def split: sum.splits)

lemma delete_course_counter: "next_course_id (snd (delete_course cid self)) = next_course_id self"
  by (simp add: delete_course_def split: option.splits)

text \<open>
  From any state, the identifiers returned are the consecutive integers from the counter
  on, one for each call that returns.
\<close>

lemma run_ops_ids:
  "fst (run_ops ops self) =
     [next_course_id self .. next_course_id self + int (length (filter returns_id ops)) - 1]"
proof (induction ops self rule: run_ops.induct)
  case (1 self)
  show ?case by simp
next
  case (2 course_data now1 now2 ops self)
  show ?case
  proof (cases "add_course course_data now1 now2 self")
    case (Inl e)
    with "2.IH"(1) add_course_Inl [OF Inl] show ?thesis by simp
  next
    case (Inr r)
    obtain cid self' where r: "r = (cid, self')" by (cases r)
    obtain ids final where ro: "run_ops ops self' = (ids, final)" by (cases "run_ops ops self'")
    from Inr r have a: "add_course course_data now1 now2 self = Inr (cid, self')" by simp
    note n = add_course_Inr [OF a]
    from "2.IH"(2) [OF Inr r [symmetric]] ro n
    have "ids = [next_course_id self + 1 ..
                 next_course_id self + 1 + int (length (filter returns_id ops)) - 1]"
      by simp
    with a ro n show ?thesis
      by (simp add: upto_rec1 [of "next_course_id self"])
  qed
next
  case (3 cid ops self)
  then show ?case by (simp add: delete_course_counter)
qed

lemma sample_courses_complete:
  "set field_names \<subseteq> dom (sample_courses ! 0) \<and> set field_names \<subseteq> dom (sample_courses ! 1) \<and>
   set field_names \<subseteq> dom (sample_courses ! 2)"
  by (simp add: sample_courses_def field_names_def py_def dom_map_of_conv_image_fst)

subsection \<open>Claim C6: identifiers are sequential and never reused\<close>

text \<open>
  C6. From a store whose counter of course identifiers is 1 (whatever the course map
  holds, the empty map among others), any sequence of \<open>add_course\<close> and \<open>delete_course\<close>
  calls assigns the identifiers 1, 2, ..., N in this order, N the number of
  \<open>add_course\<close> calls that return: each identifier is greater than all assigned
  before it, and none is assigned twice, whatever was deleted in between.
\<close>

theorem add_course_ids_sequential:
  assumes "next_course_id self = 1"
  shows "fst (run_ops ops self) = [1 .. int (length (filter returns_id ops))] \<and>
         sorted_wrt (<) (fst (run_ops ops self)) \<and>
         distinct (fst (run_ops ops self))"
proof -
  have ids: "fst (run_ops ops self) = [1 .. int (length (filter returns_id ops))]"
    using run_ops_ids [of ops self] assms by simp
  have "sorted_wrt (<) [1 .. int (length (filter returns_id ops))]"
    by (simp add: strict_sorted_iff)
  with ids show ?thesis by simp
qed

text \<open>
  Two courses are added, the first is deleted, a third is added: it gets the
  identifier 3, not the freed 1.
\<close>

theorem add_course_ids_sequential_witness:
  "next_course_id (new_manager None) = 1 \<and>
   fst (run_ops
          [Add (sample_courses ! 0) (fixed_clock 0) (fixed_clock 0),
           Add (sample_courses ! 1) (fixed_clock 0) (fixed_clock 0),
           Delete 1,
           Add (sample_courses ! 2) (fixed_clock 0) (fixed_clock 0)]
          (new_manager None)) = [1, 2, 3]"
proof -
  let ?ops = "[Add (sample_courses ! 0) (fixed_clock 0) (fixed_clock 0),
           Add (sample_courses ! 1) (fixed_clock 0) (fixed_clock 0),
           Delete 1,
           Add (sample_courses ! 2) (fixed_clock 0) (fixed_clock 0)]"
  have a: "next_course_id (new_manager None) = 1" by (simp add: new_manager_def)
  have r: "returns_id (Add (sample_courses ! i) t1 t2)" if "i < 3" for i t1 t2
  proof -
    from that have "i = 0 \<or> i = 1 \<or> i = 2" by arith
    with sample_courses_complete have "set field_names \<subseteq> dom (sample_courses ! i)" by blast
    from read_fields_complete [OF this] show ?thesis by auto
  qed
  have "length (filter returns_id ?ops) = 3" by (simp add: r del: returns_id.simps(1))
  with add_course_ids_sequential [OF a, of ?ops]
  have "fst (run_ops ?ops (new_manager None)) = [1 .. 3]" by simp
  also have "[1 .. 3] = [1, 2, 3 :: int]" by (simp add: upto_rec1)
  finally show ?thesis using a by simp
qed

subsection \<open>Claim C7: an absent identifier\<close>

text \<open>
  C7. For every state and every identifier that is not a key of the course map,
  \<open>update_course\<close> returns \<open>False\<close> and \<open>delete_course\<close> returns \<open>False\<close>, and the state
  after each is the state before: the course map, the feedback list and both counters.
\<close>

theorem absent_id_no_change:
  assumes "courses self cid = None"
  shows "update_course cid course_data now self = Inr (False, self) \<and>
         delete_course cid self = (False, self)"
  using assms by (simp add: update_course_def delete_course_def)

text \<open>The new store has no course 7; the update is tried with an empty \<open>course_data\<close>.\<close>

theorem absent_id_no_change_witness:
  "courses (new_manager None) 7 = None \<and>
   update_course 7 Map.empty (fixed_clock 0) (new_manager None) =
     Inr (False, new_manager None) \<and>
   delete_course 7 (new_manager None) = (False, new_manager None)"
proof -
  have a: "courses (new_manager None) 7 = None" by (simp add: new_manager_def)
  from absent_id_no_change [OF a] a show ?thesis by blast
qed

subsection \<open>Claim C8: updating a stored course\<close>

text \<open>
  C8. For every state and every identifier that is a key of the course map, and every
  \<open>course_data\<close> that holds the six fields, \<open>update_course\<close> returns \<open>True\<close>; in the
  course stored under the identifier afterwards the title, description, duration,
  format, price and category are those of \<open>course_data\<close> and \<open>updated_at\<close> is the
  clock reading, while its \<open>id\<close> and its \<open>created_at\<close> are as before; every other
  course, the feedback list, both counters and the client are unchanged.
\<close>

theorem update_course_present:
  assumes "courses self cid = Some c"
    and "set field_names \<subseteq> dom course_data"
  shows "\<exists>self' c'. update_course cid course_data now self = Inr (True, self') \<and>
           courses self' cid = Some c' \<and>
           course_data (py ''title'') = Some (title c') \<and>
           course_data (py ''description'') = Some (description c') \<and>
           course_data (py ''duration'') = Some (duration c') \<and>
           course_data (py ''format'') = Some (format c') \<and>
           course_data (py ''price'') = Some (price c') \<and>
           course_data (py ''category'') = Some (category c') \<and>
           updated_at c' = now \<and>
           course_id c' = course_id c \<and>
           created_at c' = created_at c \<and>
           (\<forall>other. other \<noteq> cid \<longrightarrow> courses self' other = courses self other) \<and>
           feedback self' = feedback self \<and>
           next_course_id self' = next_course_id self \<and>
           next_feedback_id self' = next_feedback_id self \<and>
           openai_client self' = openai_client self"
proof -
  from read_fields_complete [OF assms(2)] obtain f where
    f: "read_fields course_data = Inr f"
      "course_data (py ''title'') = Some (f_title f)"
      "course_data (py ''description'') = Some (f_description f)"
      "course_data (py ''duration'') = Some (f_duration f)"
      "course_data (py ''format'') = Some (f_format f)"
      "course_data (py ''price'') = Some (f_price f)"
      "course_data (py ''category'') = Some (f_category f)"
    by blast
  let ?c' = "c\<lparr>title := f_title f, description := f_description f, duration := f_duration f,
      format := f_format f, price := f_price f, category := f_category f, updated_at := now\<rparr>"
  let ?self' = "self\<lparr>courses := (courses self)(cid \<mapsto> ?c')\<rparr>"
  from assms(1) f(1) have "update_course cid course_data now self = Inr (True, ?self')"
    by (simp add: update_course_def)
  moreover have "courses ?self' cid = Some ?c'" by simp
  moreover have "\<forall>other. other \<noteq> cid \<longrightarrow> courses ?self' other = courses self other" by simp
  ultimately show ?thesis using f(2-7)
    by (intro exI [of _ ?self'] exI [of _ ?c']) simp
qed

text \<open>
  A store with the course 1 and the course 2; the course 1 is updated with the fields of
  the second sample course at a later time.
\<close>

theorem update_course_present_witness:
  "courses two_courses 1 = Some first_course \<and>
   set field_names \<subseteq> dom (sample_courses ! 1) \<and>
   update_course 1 (sample_courses ! 1) (py ''2024-06-30 12:00:00'') two_courses =
     Inr (True, two_courses\<lparr>courses := (courses two_courses)(1 \<mapsto>
        \<lparr>course_id = 1,
         title = py ''Women in Leadership Bootcamp'',
         description = py ''Intensive 3-month bootcamp for emerging women leaders'',
         duration = py ''3 months'',
         format = py ''Online'',
         price = [8377] @ py ''75,000'',
         category = py ''Leadership'',
         created_at = py ''2024-01-01 00:00:00'',
         updated_at = py ''2024-06-30 12:00:00''\<rparr>)\<rparr>)"
proof -
  have a: "courses two_courses 1 = Some first_course"
    by (simp add: two_courses_def)
  have b: "set field_names \<subseteq> dom (sample_courses ! 1)"
    using sample_courses_complete by simp
  from update_course_present [OF a b, of "py ''2024-06-30 12:00:00''"]
  obtain self' c' where
    u: "update_course 1 (sample_courses ! 1) (py ''2024-06-30 12:00:00'') two_courses =
          Inr (True, self')"
    by blast
  have "update_course 1 (sample_courses ! 1) (py ''2024-06-30 12:00:00'') two_courses =
     Inr (True, two_courses\<lparr>courses := (courses two_courses)(1 \<mapsto>
        \<lparr>course_id = 1,
         title = py ''Women in Leadership Bootcamp'',
         description = py ''Intensive 3-month bootcamp for emerging women leaders'',
         duration = py ''3 months'',
         format = py ''Online'',
         price = [8377] @ py ''75,000'',
         category = py ''Leadership'',
         created_at = py ''2024-01-01 00:00:00'',
         updated_at = py ''2024-06-30 12:00:00''\<rparr>)\<rparr>)"
    by (simp add: update_course_def two_courses_def first_course_def read_fields_def
        subscript_def sample_courses_def py_def)
  with a b show ?thesis by blast
qed

subsection \<open>Claim C9: the suggestion and summary helpers without a working backend\<close>

text \<open>
  C9, as stated. Without a backend \<open>generate_course_suggestions\<close> returns four titles;
  with a backend whose call raises it returns two: the two lists are not the same.
\<close>

theorem suggestions_fallback_counterexample:
  "generate_course_suggestions [] (new_manager None) \<noteq>
   generate_course_suggestions [] (new_manager (Some failing))"
  by (simp add: generate_course_suggestions_def generate_course_suggestions_try_def
      new_manager_def failing_def)

text \<open>
  C9, as amended. Both helpers are total functions into their result type, so they
  return and never raise. With no backend configured, \<open>generate_course_suggestions\<close>
  returns the fixed list of four titles and \<open>summarize_feedback\<close> returns the message
  that no feedback is available. With a backend whose call fails in the \<open>try\<close> block,
  \<open>generate_course_suggestions\<close> returns the fixed list of the first two of these
  titles, and \<open>summarize_feedback\<close> returns the message that no summary can be
  generated when there is feedback, and the message that no feedback is available when
  there is none.
\<close>

theorem helpers_fallback:
  "(openai_client self = None \<longrightarrow>
      generate_course_suggestions category_hint self =
        [py ''Advanced Leadership Communication'', py ''Digital Transformation for Leaders'',
         py ''Emotional Intelligence in Leadership'', py ''Strategic Decision Making Workshop''] \<and>
      summarize_feedback self = py ''No feedback available for summary.'') \<and>
   (openai_client self = Some cl \<and> generate_course_suggestions_try cl category_hint = Inl e \<longrightarrow>
      generate_course_suggestions category_hint self =
        [py ''Advanced Leadership Communication'', py ''Digital Transformation for Leaders'']) \<and>
   (openai_client self = Some cl \<and> summarize_feedback_try cl (feedback self) = Inl e' \<longrightarrow>
      summarize_feedback self =
        (if feedback self = [] then py ''No feedback available for summary.''
         else py ''Unable to generate feedback summary at this time.''))"
  by (simp add: generate_course_suggestions_def summarize_feedback_def)

text \<open>
  The new store without a backend, and the store with the backend \<open>failing\<close>, without
  feedback and with one feedback entry.
\<close>

theorem helpers_fallback_witness:
  "openai_client (new_manager None) = None \<and>
   generate_course_suggestions (py ''Finance'') (new_manager None) =
     [py ''Advanced Leadership Communication'', py ''Digital Transformation for Leaders'',
      py ''Emotional Intelligence in Leadership'', py ''Strategic Decision Making Workshop''] \<and>
   summarize_feedback (new_manager None) = py ''No feedback available for summary.'' \<and>
   openai_client (new_manager (Some failing)\<lparr>feedback := [one_feedback]\<rparr>) = Some failing \<and>
   generate_course_suggestions_try failing (py ''Finance'') = Inl BackendError \<and>
   generate_course_suggestions (py ''Finance'') (new_manager (Some failing)\<lparr>feedback := [one_feedback]\<rparr>) =
     [py ''Advanced Leadership Communication'', py ''Digital Transformation for Leaders''] \<and>
   summarize_feedback_try failing [one_feedback] = Inl BackendError \<and>
   summarize_feedback (new_manager (Some failing)\<lparr>feedback := [one_feedback]\<rparr>) =
     py ''Unable to generate feedback summary at this time.'' \<and>
   summarize_feedback (new_manager (Some failing)) = py ''No feedback available for summary.''"
proof -
  let ?s = "new_manager (Some failing)\<lparr>feedback := [one_feedback]\<rparr>"
  have a: "openai_client (new_manager None) = None" by (simp add: new_manager_def)
  have b: "openai_client ?s = Some failing" "feedback ?s = [one_feedback]"
    by (simp_all add: new_manager_def)
  have b': "openai_client (new_manager (Some failing)) = Some failing"
    "feedback (new_manager (Some failing)) = []"
    by (simp_all add: new_manager_def)
  have c: "generate_course_suggestions_try failing (py ''Finance'') = Inl BackendError"
    by (simp add: generate_course_suggestions_try_def failing_def)
  have d: "summarize_feedback_try failing fb = Inl BackendError" for fb
    by (simp add: summarize_feedback_try_def failing_def)
  from helpers_fallback [of "new_manager None" "py ''Finance''"] a
  have r1: "generate_course_suggestions (py ''Finance'') (new_manager None) =
     [py ''Advanced Leadership Communication'', py ''Digital Transformation for Leaders'',
      py ''Emotional Intelligence in Leadership'', py ''Strategic Decision Making Workshop'']"
    and r2: "summarize_feedback (new_manager None) = py ''No feedback available for summary.''"
    by blast+
  from helpers_fallback [of ?s "py ''Finance''" failing BackendError BackendError] b c d
  have r3: "generate_course_suggestions (py ''Finance'') ?s =
     [py ''Advanced Leadership Communication'', py ''Digital Transformation for Leaders'']"
    and r4: "summarize_feedback ?s = py ''Unable to generate feedback summary at this time.''"
    by simp_all
  from helpers_fallback [of "new_manager (Some failing)" "[]" failing BackendError BackendError] b' d
  have r5: "summarize_feedback (new_manager (Some failing)) = py ''No feedback available for summary.''"
    by simp
  from a b(1) c d [of "[one_feedback]"] r1 r2 r3 r4 r5 show ?thesis by blast
qed

subsection \<open>Claim C10: the constructor preloads three courses\<close>

text \<open>
  C10. Whatever the environment and the clock, the constructor returns a store; its
  course map holds exactly the keys 1, 2 and 3, the course under each key carries the
  key as its \<open>id\<close>, the counter is at 4, and an \<open>add_course\<close> with a \<open>course_data\<close>
  that holds the six fields returns the identifier 4.
\<close>

theorem init_preloads_three:
  "\<exists>self. init api_key connect clock = Inr self \<and>
      dom (courses self) = {1, 2, 3} \<and>
      map_option course_id (courses self 1) = Some 1 \<and>
      map_option course_id (courses self 2) = Some 2 \<and>
      map_option course_id (courses self 3) = Some 3 \<and>
      next_course_id self = 4 \<and>
      (set field_names \<subseteq> dom course_data \<longrightarrow>
         (\<exists>self'. add_course course_data now1 now2 self = Inr (4, self')))"
proof -
  obtain d0 d1 d2 where s: "sample_courses = [d0, d1, d2]"
    by (simp add: sample_courses_def)
  from sample_courses_complete [unfolded s] have
    "set field_names \<subseteq> dom d0" "set field_names \<subseteq> dom d1" "set field_names \<subseteq> dom d2"
    by simp_all
  then obtain f0 f1 f2 where
    f: "read_fields d0 = Inr f0" "read_fields d1 = Inr f1" "read_fields d2 = Inr f2"
    using read_fields_complete by meson
  obtain self where i: "init api_key connect clock = Inr self"
      and d: "dom (courses self) = {1, 2, 3}"
      and c: "map_option course_id (courses self 1) = Some 1"
        "map_option course_id (courses self 2) = Some 2"
        "map_option course_id (courses self 3) = Some 3"
      and n: "next_course_id self = 4"
  proof -
    have "\<exists>self. init api_key connect clock = Inr self \<and> dom (courses self) = {1, 2, 3} \<and>
        map_option course_id (courses self 1) = Some 1 \<and>
        map_option course_id (courses self 2) = Some 2 \<and>
        map_option course_id (courses self 3) = Some 3 \<and> next_course_id self = 4"
      by (auto simp: init_def load_sample_data_def s f add_course_def new_manager_def)
    then show ?thesis using that by blast
  qed
  have "\<exists>self'. add_course course_data now1 now2 self = Inr (4, self')"
    if "set field_names \<subseteq> dom course_data"
  proof -
    from read_fields_complete [OF that] obtain g where "read_fields course_data = Inr g" by blast
    with n show ?thesis by (simp add: add_course_def)
  qed
  with i d c n show ?thesis by blast
qed

text \<open>
  Without an API key: the store of the constructor holds the three sample courses, and
  the first sample course added again gets the identifier 4.
\<close>

theorem init_preloads_three_witness:
  "set field_names \<subseteq> dom (sample_courses ! 0) \<and>
   (\<exists>self self'. init None refusing fixed_clock = Inr self \<and>
      dom (courses self) = {1, 2, 3} \<and> next_course_id self = 4 \<and>
      add_course (sample_courses ! 0) (fixed_clock 6) (fixed_clock 7) self = Inr (4, self'))"
proof -
  have a: "set field_names \<subseteq> dom (sample_courses ! 0)"
    using sample_courses_complete by simp
  from init_preloads_three [of None refusing fixed_clock "sample_courses ! 0" "fixed_clock 6"
      "fixed_clock 7"] a
  show ?thesis by blast
qed

end
